theory Spec2Isabelle
  imports Complex_Main
begin

section \<open>The values held by the numpy arrays\<close>

text \<open>
  The estimator of \<^verbatim>\<open>photoz/CMNN_Estimator/leave-one-out_method.ipynb\<close> works on numpy
  arrays of doubles. A double is modelled as a real number, plus or minus infinity, or NaN.
  The special values follow IEEE 754 as numpy applies it (a division by zero is a value, not
  an exception). Arithmetic on finite values is exact: rounding and overflow are not
  modelled. Zero is unsigned; every denominator of the program is a square, a sum of squares
  plus one, or a positive count, so a zero denominator is always \<open>+0\<close>.
\<close>

datatype fl = Fin real | PInf | NInf | NaN

fun is_fin :: "fl \<Rightarrow> bool" where
  "is_fin (Fin x) = True"
| "is_fin PInf = False"
| "is_fin NInf = False"
| "is_fin NaN = False"


fun fadd :: "fl \<Rightarrow> fl \<Rightarrow> fl" where
  "fadd NaN y = NaN"
| "fadd x NaN = NaN"
| "fadd PInf NInf = NaN"
| "fadd NInf PInf = NaN"
| "fadd PInf y = PInf"
| "fadd x PInf = PInf"
| "fadd NInf y = NInf"
| "fadd x NInf = NInf"
| "fadd (Fin x) (Fin y) = Fin (x + y)"

fun fsub :: "fl \<Rightarrow> fl \<Rightarrow> fl" where
  "fsub NaN y = NaN"
| "fsub x NaN = NaN"
| "fsub PInf PInf = NaN"
| "fsub NInf NInf = NaN"
| "fsub PInf y = PInf"
| "fsub x PInf = NInf"
| "fsub NInf y = NInf"
| "fsub x NInf = PInf"
| "fsub (Fin x) (Fin y) = Fin (x - y)"

text \<open>\<^verbatim>\<open>x**2\<close>\<close>

fun fsq :: "fl \<Rightarrow> fl" where
  "fsq (Fin x) = Fin (x * x)"
| "fsq PInf = PInf"
| "fsq NInf = PInf"
| "fsq NaN = NaN"

text \<open>
  \<^verbatim>\<open>x / y\<close> on arrays: \<open>0/0\<close> and \<open>inf/inf\<close> are NaN, a non-zero finite value over zero
  is an infinity, a finite value over an infinity is zero.
\<close>

fun fdiv :: "fl \<Rightarrow> fl \<Rightarrow> fl" where
  "fdiv NaN y = NaN"
| "fdiv x NaN = NaN"
| "fdiv (Fin x) (Fin y) =
     (if y \<noteq> 0 then Fin (x / y)
      else if x = 0 then NaN
      else if 0 < x then PInf else NInf)"
| "fdiv (Fin x) PInf = Fin 0"
| "fdiv (Fin x) NInf = Fin 0"
| "fdiv PInf (Fin y) = (if 0 \<le> y then PInf else NInf)"
| "fdiv NInf (Fin y) = (if 0 \<le> y then NInf else PInf)"
| "fdiv PInf PInf = NaN"
| "fdiv PInf NInf = NaN"
| "fdiv NInf PInf = NaN"
| "fdiv NInf NInf = NaN"

fun fsqrt :: "fl \<Rightarrow> fl" where
  "fsqrt (Fin x) = (if 0 \<le> x then Fin (sqrt x) else NaN)"
| "fsqrt PInf = PInf"
| "fsqrt NInf = NaN"
| "fsqrt NaN = NaN"

text \<open>Comparisons: every comparison with NaN is false.\<close>

fun fl_le :: "fl \<Rightarrow> fl \<Rightarrow> bool" where
  "fl_le NaN y = False"
| "fl_le x NaN = False"
| "fl_le NInf y = True"
| "fl_le x PInf = True"
| "fl_le PInf y = False"
| "fl_le x NInf = False"
| "fl_le (Fin x) (Fin y) = (x \<le> y)"

fun fl_lt :: "fl \<Rightarrow> fl \<Rightarrow> bool" where
  "fl_lt NaN y = False"
| "fl_lt x NaN = False"
| "fl_lt PInf y = False"
| "fl_lt x NInf = False"
| "fl_lt NInf y = True"
| "fl_lt x PInf = True"
| "fl_lt (Fin x) (Fin y) = (x < y)"

text \<open>
  The cast of a double to \<^verbatim>\<open>int\<close> that a reduction with \<^verbatim>\<open>dtype='int'\<close> applies to each
  element: truncation toward zero; a value that is not finite becomes the least 64-bit
  integer.
\<close>

fun to_int :: "fl \<Rightarrow> int" where
  "to_int (Fin x) = (if 0 \<le> x then \<lfloor>x\<rfloor> else \<lceil>x\<rceil>)"
| "to_int PInf = - (2 ^ 63)"
| "to_int NInf = - (2 ^ 63)"
| "to_int NaN = - (2 ^ 63)"

section \<open>Reductions\<close>

text \<open>\<^verbatim>\<open>np.sum\<close> over one axis of doubles.\<close>

fun fsum :: "fl list \<Rightarrow> fl" where
  "fsum [] = Fin 0"
| "fsum (x # xs) = fadd x (fsum xs)"

text \<open>\<^verbatim>\<open>np.nansum\<close> replaces every NaN by zero and then sums.\<close>

definition nan_to_zero :: "fl \<Rightarrow> fl" where
  "nan_to_zero x = (if x = NaN then Fin 0 else x)"

definition nansum :: "fl list \<Rightarrow> fl" where
  "nansum xs = fsum (map nan_to_zero xs)"

definition nansum_int :: "fl list \<Rightarrow> int" where
  "nansum_int xs = sum_list (map to_int (map nan_to_zero xs))"

text \<open>\<^verbatim>\<open>np.mean\<close> and \<^verbatim>\<open>np.std\<close> (the population standard deviation) of a 1-d array.\<close>

definition np_mean :: "fl list \<Rightarrow> fl" where
  "np_mean xs = fdiv (fsum xs) (Fin (real (length xs)))"

definition np_std :: "fl list \<Rightarrow> fl" where
  "np_std xs = fsqrt (np_mean (map (\<lambda>x. fsq (fsub x (np_mean xs))) xs))"

section \<open>The threshold table\<close>

text \<open>
  \<^verbatim>\<open>cmnn_thresh_table = np.zeros(6); for d in range(6): cmnn_thresh_table[d] = chi2.ppf(cmnn_ppf, d)\<close>
  and then \<^verbatim>\<open>cmnn_thresh_table[0] = float(0.0000)\<close>. The quantile function \<^verbatim>\<open>chi2.ppf\<close>
  belongs to scipy; here \<open>ppf d\<close> stands for \<^verbatim>\<open>chi2.ppf(cmnn_ppf, d)\<close>.
\<close>

definition cmnn_thresh_table :: "(nat \<Rightarrow> fl) \<Rightarrow> fl list" where
  "cmnn_thresh_table ppf =
     (fold (\<lambda>d t. t[d := ppf d]) [0..<6] (replicate 6 (Fin 0)))[0 := Fin 0]"

section \<open>Distance and degrees of freedom of one test galaxy against all galaxies\<close>

text \<open>
  \<^verbatim>\<open>DM = np.nansum((data_c[i,:] - data_c[:,:])**2 / data_ce[i,:]**2, axis=1, dtype='float')\<close>.
  A row of \<open>data_c\<close> holds the colours of one galaxy, a row of \<open>data_ce\<close> their
  uncertainties.
\<close>

definition DM_row :: "fl list \<Rightarrow> fl list \<Rightarrow> fl list \<Rightarrow> fl" where
  "DM_row cq eq cr = nansum (map2 fdiv (map fsq (map2 fsub cq cr)) (map fsq eq))"

definition DM :: "fl list list \<Rightarrow> fl list list \<Rightarrow> nat \<Rightarrow> fl list" where
  "DM data_c data_ce i = map (DM_row (data_c ! i) (data_ce ! i)) data_c"

text \<open>
  \<^verbatim>\<open>DOF = np.nansum((data_c[i,:]**2 + data_c[:,:]**2 + 1.0) / (data_c[i,:]**2 + data_c[:,:]**2 + 1.0), axis=1, dtype='int')\<close>
\<close>

definition DOF_row :: "fl list \<Rightarrow> fl list \<Rightarrow> int" where
  "DOF_row cq cr =
     (let a = map (\<lambda>x. fadd x (Fin 1)) (map2 fadd (map fsq cq) (map fsq cr))
      in nansum_int (map2 fdiv a a))"

definition DOF :: "fl list list \<Rightarrow> nat \<Rightarrow> int list" where
  "DOF data_c i = map (DOF_row (data_c ! i)) data_c"

text \<open>
  \<^verbatim>\<open>data_th = np.zeros(len(data_c)); for d in range(6): tx = np.where(DOF == d)[0]; data_th[tx] = cmnn_thresh_table[d]\<close>
\<close>

definition data_th :: "fl list \<Rightarrow> int list \<Rightarrow> fl list" where
  "data_th table dof =
     fold (\<lambda>d th. map2 (\<lambda>v t. if v = int d then table ! d else t) dof th)
       [0..<6] (replicate (length dof) (Fin 0))"

section \<open>The CMNN subset of one test galaxy\<close>

text \<open>
  The distance of the test galaxy to itself is reset (\<^verbatim>\<open>DM[i] = 99.9\<close>), then
  \<^verbatim>\<open>index = np.where((DOF >= cmnn_minNclr) & (data_th > 0.00010) & (DM > 0.00010) & (DM <= data_th))[0]\<close>.
\<close>

definition cmnn_index :: "fl list \<Rightarrow> int \<Rightarrow> fl list list \<Rightarrow> fl list list \<Rightarrow> nat \<Rightarrow> nat list" where
  "cmnn_index table minNclr data_c data_ce i =
     (let DM0 = DM data_c data_ce i;
          DOFv = DOF data_c i;
          th = data_th table DOFv;
          DM1 = DM0[i := Fin (999 / 10)]
      in filter (\<lambda>r. minNclr \<le> DOFv ! r \<and> fl_lt (Fin (1 / 10000)) (th ! r) \<and>
                      fl_lt (Fin (1 / 10000)) (DM1 ! r) \<and> fl_le (DM1 ! r) (th ! r))
           [0..<length data_c])"

section \<open>The estimate for one test galaxy, and the loop over the galaxies\<close>

datatype error = IndexError | ZeroDivisionError

text \<open>
  The two output arrays, and the position in the stream of random numbers: \<open>rnd k\<close> is
  the \<open>k\<close>-th number drawn, and \<^verbatim>\<open>np.random.choice(index, size=1, replace=False)[0]\<close>
  returns the element of \<open>index\<close> at that number modulo the length.
\<close>

record outputs =
  data_pz :: "fl list"
  data_pze :: "fl list"
  draws :: nat

text \<open>
  \<^verbatim>\<open>data_pz = np.zeros(len(data_m)) - 1.0\<close>, the same for \<open>data_pze\<close>; \<open>data_m\<close> has
  one row for each row of \<open>data_c\<close>.
\<close>

definition init_outputs :: "fl list list \<Rightarrow> outputs" where
  "init_outputs data_c =
     \<lparr>data_pz = replicate (length data_c) (fsub (Fin 0) (Fin 1)),
      data_pze = replicate (length data_c) (fsub (Fin 0) (Fin 1)),
      draws = 0\<rparr>"

text \<open>
  The body of \<^verbatim>\<open>for i in range(Ncalc)\<close>. The progress report divides a time difference
  by \<^verbatim>\<open>float(i)\<close>, which raises for \<open>i = 0\<close>; reading row \<open>i\<close> of \<open>data_c\<close> raises
  when there is no such row. The arrays \<open>data_c\<close>, \<open>data_ce\<close> and \<open>data_tz\<close> are
  built from one query result and have one entry for each galaxy.
\<close>

definition cmnn_step ::
  "(nat \<Rightarrow> nat) \<Rightarrow> fl list \<Rightarrow> int \<Rightarrow> int \<Rightarrow> fl list list \<Rightarrow> fl list list \<Rightarrow> fl list
     \<Rightarrow> nat \<Rightarrow> outputs \<Rightarrow> error + outputs" where
  "cmnn_step rnd table minNclr Ncalc data_c data_ce data_tz i s =
     (if (i = 100 \<or> i = 1000 \<or> int i = Ncalc - 1000) \<and> real i = 0 then Inl ZeroDivisionError
      else if length data_c \<le> i then Inl IndexError
      else
        let index = cmnn_index table minNclr data_c data_ce i in
        if 0 < length index then
          let rival = index ! (rnd (draws s) mod length index) in
          Inr (s\<lparr>data_pz := (data_pz s)[i := data_tz ! rival],
                 data_pze := (data_pze s)[i := np_std (map (nth data_tz) index)],
                 draws := Suc (draws s)\<rparr>)
        else
          Inr (s\<lparr>data_pz := (data_pz s)[i := NaN],
                 data_pze := (data_pze s)[i := NaN]\<rparr>))"

fun run_loop :: "(nat \<Rightarrow> outputs \<Rightarrow> error + outputs) \<Rightarrow> nat list \<Rightarrow> outputs \<Rightarrow> error + outputs" where
  "run_loop body [] s = Inr s"
| "run_loop body (i # is) s =
     (case body i s of Inl e \<Rightarrow> Inl e | Inr s' \<Rightarrow> run_loop body is s')"

definition driver ::
  "(nat \<Rightarrow> nat) \<Rightarrow> fl list \<Rightarrow> int \<Rightarrow> int \<Rightarrow> fl list list \<Rightarrow> fl list list \<Rightarrow> fl list
     \<Rightarrow> error + outputs" where
  "driver rnd table minNclr Ncalc data_c data_ce data_tz =
     run_loop (cmnn_step rnd table minNclr Ncalc data_c data_ce data_tz)
       [0..<nat Ncalc] (init_outputs data_c)"

section \<open>Closed forms of the loops, and the notions of the specification\<close>



text \<open>What one pass of the loop body leaves in the output fields of galaxy \<open>i\<close>.\<close>

definition estimated ::
  "fl list \<Rightarrow> int \<Rightarrow> fl list list \<Rightarrow> fl list list \<Rightarrow> fl list \<Rightarrow> nat \<Rightarrow> outputs \<Rightarrow> bool" where
  "estimated table minNclr data_c data_ce data_tz i s =
     (let index = cmnn_index table minNclr data_c data_ce i in
      if index = [] then data_pz s ! i = NaN \<and> data_pze s ! i = NaN
      else (\<exists>r\<in>set index. data_pz s ! i = data_tz ! r) \<and>
           data_pze s ! i = np_std (map (nth data_tz) index))"

definition dof_term :: "fl \<times> fl \<Rightarrow> int" where
  "dof_term p = (if is_fin (fst p) \<and> is_fin (snd p) then 1 else 0)"









section \<open>Example inputs\<close>

text \<open>
  The values of \<^verbatim>\<open>chi2.ppf(0.68, d)\<close> for \<open>d = 1, \<dots>, 5\<close> to three decimals; scipy
  returns NaN for \<open>d = 0\<close>.
\<close>

definition ppf68 :: "nat \<Rightarrow> fl" where
  "ppf68 d =
     (if d = 1 then Fin (989 / 1000) else if d = 2 then Fin (2279 / 1000)
      else if d = 3 then Fin (3506 / 1000) else if d = 4 then Fin (4695 / 1000)
      else if d = 5 then Fin (5861 / 1000) else NaN)"

definition rnd0 :: "nat \<Rightarrow> nat" where
  "rnd0 k = 0"

text \<open>Two galaxies that differ by 0.001 in the first colour, with uncertainties 0.2.\<close>

definition near_c :: "fl list list" where
  "near_c = [ [Fin (1 / 1000), Fin 0, Fin 0, Fin 0, Fin 0], [Fin 0, Fin 0, Fin 0, Fin 0, Fin 0] ]"

definition near_ce :: "fl list list" where
  "near_ce = [ [Fin (1 / 5), Fin (1 / 5), Fin (1 / 5), Fin (1 / 5), Fin (1 / 5)],
               [Fin (1 / 5), Fin (1 / 5), Fin (1 / 5), Fin (1 / 5), Fin (1 / 5)] ]"

definition near_tz :: "fl list" where
  "near_tz = [Fin (1 / 2), Fin 2]"

text \<open>
  Three galaxies: the first two differ by 0.1 in the first colour and have uncertainties
  0.1 and 0.2; the third misses its first two colours and is far from both.
\<close>

definition trio_c :: "fl list list" where
  "trio_c = [ [Fin 0, Fin 0, Fin 0, Fin 0, Fin 0],
              [Fin (1 / 10), Fin 0, Fin 0, Fin 0, Fin 0],
              [NaN, NaN, Fin 3, Fin 0, Fin 0] ]"

definition trio_ce :: "fl list list" where
  "trio_ce = [ [Fin (1 / 10), Fin (1 / 10), Fin (1 / 10), Fin (1 / 10), Fin (1 / 10)],
               [Fin (1 / 5), Fin (1 / 5), Fin (1 / 5), Fin (1 / 5), Fin (1 / 5)],
               [NaN, NaN, Fin (1 / 10), Fin (1 / 10), Fin (1 / 10)] ]"






section \<open>Properties of the arithmetic and of the loops\<close>

lemma ratio_one:
  "fdiv (fadd (fadd (fsq a) (fsq b)) (Fin 1)) (fadd (fadd (fsq a) (fsq b)) (Fin 1)) =
     (if is_fin a \<and> is_fin b then Fin 1 else NaN)"
proof (cases a; cases b)
  fix x y assume "a = Fin x" "b = Fin y"
  moreover have "x * x + y * y + 1 \<noteq> 0"
    using sum_squares_ge_zero [of x y] by linarith
  ultimately show ?thesis by simp
qed simp_all

lemma dof_term_eq:
  "to_int (nan_to_zero (fdiv (fadd (fadd (fsq (fst p)) (fsq (snd p))) (Fin 1))
      (fadd (fadd (fsq (fst p)) (fsq (snd p))) (Fin 1)))) = dof_term p"
  by (simp add: ratio_one dof_term_def nan_to_zero_def)

lemma DOF_row_sum: "DOF_row cq cr = sum_list (map dof_term (zip cq cr))"
proof -
  have a: "map (\<lambda>x. fadd x (Fin 1)) (map2 fadd (map fsq cq) (map fsq cr)) =
      map (\<lambda>p. fadd (fadd (fsq (fst p)) (fsq (snd p))) (Fin 1)) (zip cq cr)"
    by (simp add: zip_map_map case_prod_beta)
  have z: "\<And>xs::fl list. zip xs xs = map (\<lambda>x. (x, x)) xs"
    by (simp add: zip_same_conv_map)
  show ?thesis
    unfolding DOF_row_def Let_def a z nansum_int_def
    by (simp add: o_def dof_term_eq)
qed

lemma sum_dof_term:
  "sum_list (map dof_term zs) = int (length (filter (\<lambda>p. is_fin (fst p) \<and> is_fin (snd p)) zs))"
  by (induction zs) (auto simp: dof_term_def)

lemma DOF_row_count:
  "DOF_row cq cr = int (length (filter (\<lambda>p. is_fin (fst p) \<and> is_fin (snd p)) (zip cq cr)))"
  by (simp add: DOF_row_sum sum_dof_term)




lemma DOF_nth: "r < length data_c \<Longrightarrow> DOF data_c i ! r = DOF_row (data_c ! i) (data_c ! r)"
  by (simp add: DOF_def)



lemma upt6: "[0..<6] = [0, 1, 2, 3, 4, 5::nat]"
  by (simp add: upt_rec)

lemma cmnn_thresh_table_eq:
  "cmnn_thresh_table ppf = [Fin 0, ppf 1, ppf 2, ppf 3, ppf 4, ppf 5]"
  by (simp add: cmnn_thresh_table_def upt6 eval_nat_numeral)






lemma run_loop_append:
  "run_loop body (xs @ ys) s =
     (case run_loop body xs s of Inl e \<Rightarrow> Inl e | Inr s' \<Rightarrow> run_loop body ys s')"
  by (induction xs arbitrary: s) (simp_all split: sum.splits)

lemma report_raises:
  "((i = 100 \<or> i = 1000 \<or> int i = Ncalc - 1000) \<and> real i = 0) = (i = 0 \<and> Ncalc = 1000)"
  by auto

lemma cmnn_step_ok:
  assumes "i < length data_c" "\<not> (i = 0 \<and> Ncalc = 1000)"
    and "length (data_pz s) = length data_c" "length (data_pze s) = length data_c"
  shows "\<exists>s'. cmnn_step rnd table minNclr Ncalc data_c data_ce data_tz i s = Inr s' \<and>
           length (data_pz s') = length data_c \<and> length (data_pze s') = length data_c \<and>
           estimated table minNclr data_c data_ce data_tz i s' \<and>
           (\<forall>j. j \<noteq> i \<longrightarrow> data_pz s' ! j = data_pz s ! j \<and> data_pze s' ! j = data_pze s ! j)"
proof (cases "cmnn_index table minNclr data_c data_ce i = []")
  case True
  then show ?thesis
    using assms unfolding cmnn_step_def report_raises estimated_def by simp
next
  case False
  define index where "index = cmnn_index table minNclr data_c data_ce i"
  have "index ! (rnd (draws s) mod length index) \<in> set index"
    using False by (simp add: index_def)
  then show ?thesis
    using assms False unfolding cmnn_step_def report_raises estimated_def Let_def index_def [symmetric]
    by auto
qed

lemma run_loop_prefix:
  assumes "k \<le> length data_c" "Ncalc \<noteq> 1000"
  shows "\<exists>s. run_loop (cmnn_step rnd table minNclr Ncalc data_c data_ce data_tz) [0..<k]
              (init_outputs data_c) = Inr s \<and>
           length (data_pz s) = length data_c \<and> length (data_pze s) = length data_c \<and>
           (\<forall>i<k. estimated table minNclr data_c data_ce data_tz i s) \<and>
           (\<forall>i. k \<le> i \<and> i < length data_c \<longrightarrow>
                data_pz s ! i = Fin (- 1) \<and> data_pze s ! i = Fin (- 1))"
  using assms(1)
proof (induction k)
  case 0
  then show ?case by (simp add: init_outputs_def)
next
  case (Suc k)
  then obtain s where s: "run_loop (cmnn_step rnd table minNclr Ncalc data_c data_ce data_tz) [0..<k]
              (init_outputs data_c) = Inr s"
      "length (data_pz s) = length data_c" "length (data_pze s) = length data_c"
      "\<forall>i<k. estimated table minNclr data_c data_ce data_tz i s"
      "\<forall>i. k \<le> i \<and> i < length data_c \<longrightarrow> data_pz s ! i = Fin (- 1) \<and> data_pze s ! i = Fin (- 1)"
    by auto
  have "k < length data_c" using Suc.prems by simp
  from cmnn_step_ok [OF this _ s(2,3), of Ncalc rnd table minNclr data_ce data_tz] assms(2)
  obtain s' where s': "cmnn_step rnd table minNclr Ncalc data_c data_ce data_tz k s = Inr s'"
      "length (data_pz s') = length data_c" "length (data_pze s') = length data_c"
      "estimated table minNclr data_c data_ce data_tz k s'"
      "\<forall>j. j \<noteq> k \<longrightarrow> data_pz s' ! j = data_pz s ! j \<and> data_pze s' ! j = data_pze s ! j"
    by auto
  have run: "run_loop (cmnn_step rnd table minNclr Ncalc data_c data_ce data_tz) [0..<Suc k]
              (init_outputs data_c) = Inr s'"
    by (simp add: run_loop_append s(1) s'(1))
  have "estimated table minNclr data_c data_ce data_tz i s'" if "i < Suc k" for i
  proof (cases "i = k")
    case True
    then show ?thesis using s'(4) by simp
  next
    case False
    then have "i < k" using that by simp
    then have "estimated table minNclr data_c data_ce data_tz i s" using s(4) by simp
    then show ?thesis using s'(5) False by (simp add: estimated_def Let_def)
  qed
  moreover have "data_pz s' ! i = Fin (- 1) \<and> data_pze s' ! i = Fin (- 1)"
    if "Suc k \<le> i \<and> i < length data_c" for i
    using that s(5) s'(5) by simp
  ultimately show ?case using run s'(2,3) by blast
qed



lemma driver_result:
  assumes "Ncalc \<noteq> 1000" "nat Ncalc \<le> length data_c"
  shows "\<exists>s. driver rnd table minNclr Ncalc data_c data_ce data_tz = Inr s \<and>
           length (data_pz s) = length data_c \<and> length (data_pze s) = length data_c \<and>
           (\<forall>i<nat Ncalc. estimated table minNclr data_c data_ce data_tz i s) \<and>
           (\<forall>i. nat Ncalc \<le> i \<and> i < length data_c \<longrightarrow>
                data_pz s ! i = Fin (- 1) \<and> data_pze s ! i = Fin (- 1))"
  unfolding driver_def using run_loop_prefix [OF assms(2) assms(1)] .





lemma DOF_row_commute: "DOF_row cq cr = DOF_row cr cq"
proof -
  have "zip cr cq = map (\<lambda>p. (snd p, fst p)) (zip cq cr)"
    by (subst zip_commute) (simp add: case_prod_beta)
  then show ?thesis
    unfolding DOF_row_count by (simp add: filter_map o_def conj_commute)
qed











section \<open>The example inputs, evaluated\<close>

lemma ppf68_table:
  "cmnn_thresh_table ppf68 =
     [Fin 0, Fin (989 / 1000), Fin (2279 / 1000), Fin (3506 / 1000), Fin (4695 / 1000), Fin (5861 / 1000)]"
  by (simp add: cmnn_thresh_table_eq ppf68_def)

lemma near_len: "length near_c = Suc (Suc 0)"
  by (simp add: near_c_def)

lemma near_DOF: "DOF near_c 0 = [5, 5]" "DOF near_c (Suc 0) = [5, 5]"
  by (simp_all add: DOF_def DOF_row_def near_c_def nansum_int_def nan_to_zero_def)

lemma near_DM:
  "DM near_c near_ce 0 = [Fin 0, Fin (1 / 40000)]"
  "DM near_c near_ce (Suc 0) = [Fin (1 / 40000), Fin 0]"
  by (simp_all add: DM_def DM_row_def near_c_def near_ce_def nansum_def nan_to_zero_def)

lemma near_th: "data_th (cmnn_thresh_table ppf68) [5, 5] = [Fin (5861 / 1000), Fin (5861 / 1000)]"
  by (simp add: data_th_def ppf68_table upt6)

lemma near_index:
  "cmnn_index (cmnn_thresh_table ppf68) m near_c near_ce 0 = []"
  "cmnn_index (cmnn_thresh_table ppf68) m near_c near_ce (Suc 0) = []"
  by (simp_all add: cmnn_index_def near_DOF near_DM near_th near_len Let_def)


lemma trio_DOF:
  "DOF trio_c 0 = [5, 5, 3]"
  "DOF trio_c (Suc 0) = [5, 5, 3]"
  "DOF trio_c (Suc (Suc 0)) = [3, 3, 3]"
  by (simp_all add: DOF_def DOF_row_def trio_c_def nansum_int_def nan_to_zero_def)

lemma trio_DM:
  "DM trio_c trio_ce 0 = [Fin 0, Fin 1, Fin 900]"
  "DM trio_c trio_ce (Suc 0) = [Fin (1 / 4), Fin 0, Fin 225]"
  "DM trio_c trio_ce (Suc (Suc 0)) = [Fin 900, Fin 900, Fin 0]"
  by (simp_all add: DM_def DM_row_def trio_c_def trio_ce_def nansum_def nan_to_zero_def)








section \<open>Order of the comparison\<close>







section \<open>The claims\<close>

subsection \<open>C1: the selected subset\<close>




subsection \<open>C2: a galaxy is not in its own subset\<close>



subsection \<open>C3: the distance\<close>



subsection \<open>C4: the degrees of freedom\<close>



subsection \<open>C5: the threshold table\<close>



subsection \<open>C6: an empty subset\<close>

text \<open>
  Claim C6: when the subset of galaxy \<open>i\<close> is empty, the loop body returns normally
  and has written NaN into both output fields of \<open>i\<close>, for every table and every minimum
  number of colours; the loop goes on to its end and both fields of \<open>i\<close> are NaN in the
  final outputs. (The loop itself returns when \<open>Ncalc\<close> is at most the number of galaxies
  and is not 1000.)
\<close>

theorem empty_subset_writes_missing:
  assumes "Ncalc \<noteq> 1000" "nat Ncalc \<le> length data_c" "i < nat Ncalc"
    and "cmnn_index table minNclr data_c data_ce i = []"
  shows "cmnn_step rnd table minNclr Ncalc data_c data_ce data_tz i s0 =
           Inr (s0\<lparr>data_pz := (data_pz s0)[i := NaN], data_pze := (data_pze s0)[i := NaN]\<rparr>) \<and>
         (\<exists>s. driver rnd table minNclr Ncalc data_c data_ce data_tz = Inr s \<and>
              data_pz s ! i = NaN \<and> data_pze s ! i = NaN)"
proof -
  have "cmnn_step rnd table minNclr Ncalc data_c data_ce data_tz i s0 =
      Inr (s0\<lparr>data_pz := (data_pz s0)[i := NaN], data_pze := (data_pze s0)[i := NaN]\<rparr>)"
    using assms unfolding cmnn_step_def report_raises by simp
  moreover obtain s where s: "driver rnd table minNclr Ncalc data_c data_ce data_tz = Inr s"
      "\<forall>i<nat Ncalc. estimated table minNclr data_c data_ce data_tz i s"
    using driver_result [OF assms(1,2)] by blast
  moreover have "estimated table minNclr data_c data_ce data_tz i s" using s(2) assms(3) by simp
  ultimately show ?thesis using assms(4) by (simp add: estimated_def)
qed

text \<open>
  An instance of C6: two galaxies too close to each other to be selected.
\<close>

theorem empty_subset_writes_missing_witness:
  "(2::int) \<noteq> 1000 \<and> nat 2 \<le> length near_c \<and> 0 < nat 2 \<and>
   cmnn_index (cmnn_thresh_table ppf68) 5 near_c near_ce 0 = [] \<and>
   cmnn_step rnd0 (cmnn_thresh_table ppf68) 5 2 near_c near_ce near_tz 0 (init_outputs near_c) =
     Inr \<lparr>data_pz = [NaN, Fin (- 1)], data_pze = [NaN, Fin (- 1)], draws = 0\<rparr> \<and>
   (\<exists>s. driver rnd0 (cmnn_thresh_table ppf68) 5 2 near_c near_ce near_tz = Inr s \<and>
        data_pz s ! 0 = NaN \<and> data_pze s ! 0 = NaN)"
proof -
  have h: "(2::int) \<noteq> 1000" "nat 2 \<le> length near_c" "0 < nat 2"
    "cmnn_index (cmnn_thresh_table ppf68) 5 near_c near_ce 0 = []"
    by (simp_all add: near_len near_index)
  show ?thesis
    using h empty_subset_writes_missing [OF h, of rnd0 near_tz "init_outputs near_c"]
    by (simp add: init_outputs_def near_len)
qed

subsection \<open>C7: invalid configurations\<close>




subsection \<open>C8: an uncertainty of zero\<close>




subsection \<open>C9: the output fields\<close>




subsection \<open>C10: symmetry of the degrees of freedom\<close>

text \<open>
  Claim C10: the count of the degrees of freedom of a pair is the same in both orders,
  while the distance is not: the first two of the three galaxies are at distance 1 in one
  order and 0.25 in the other.
\<close>

theorem DOF_symmetric:
  assumes "i < length data_c" "r < length data_c"
  shows "DOF data_c i ! r = DOF data_c r ! i \<and>
         DM trio_c trio_ce 0 ! 1 \<noteq> DM trio_c trio_ce 1 ! 0"
proof -
  have "DM trio_c trio_ce 0 ! 1 \<noteq> DM trio_c trio_ce 1 ! 0"
    using trio_DM by simp
  then show ?thesis
    using assms DOF_row_commute [of "data_c ! i" "data_c ! r"] by (simp add: DOF_nth)
qed

text \<open>
  An instance of C10.
\<close>

theorem DOF_symmetric_witness:
  "0 < length trio_c \<and> 2 < length trio_c \<and> DOF trio_c 0 ! 2 = DOF trio_c 2 ! 0 \<and>
   DOF trio_c 2 ! 0 = 3 \<and> DM trio_c trio_ce 0 ! 1 = Fin 1 \<and> DM trio_c trio_ce 1 ! 0 = Fin (1 / 4)"
proof -
  have h: "0 < length trio_c" "2 < length trio_c" by (simp_all add: trio_c_def)
  have "DOF trio_c 2 ! 0 = 3" using trio_DOF(3) by (simp add: numeral_2_eq_2)
  moreover have "DM trio_c trio_ce 0 ! 1 = Fin 1" "DM trio_c trio_ce 1 ! 0 = Fin (1 / 4)"
    using trio_DM by simp_all
  ultimately show ?thesis
    using h DOF_symmetric [OF h] by simp
qed

end
